theory Spec2Isabelle
  imports Main
begin

section \<open>Pipeline step sequences\<close>

text \<open>
  The step classes imported from \<^verbatim>\<open>steps\<close> by the two pipeline modules
  \<^verbatim>\<open>src/pipelines/chest_xray14.py\<close> and
  \<^verbatim>\<open>src/pipelines/brain_with_intracranial_hemorrhage.py\<close>. A pipeline's
  \<^verbatim>\<open>steps\<close> attribute is a tuple of (name, step class) pairs; it is modelled as a
  list of pairs, in the order of the tuple.
\<close>

datatype step =
    AddLabels
  | AddUmieIds
  | ConvertJpg2Png
  | CopyMasks
  | CreateBlankMasks
  | CreateFileTree
  | DeleteImgsWithNoAnnotations
  | DeleteTempFiles
  | DeleteTempPng
  | GetFilePaths
  | MasksToBinaryColors
  | RecolorMasks
  | StoreSourcePaths
  | ValidateData

text \<open>
  \<^verbatim>\<open>ChestXray14Pipeline.steps\<close>. The entry
  \<^verbatim>\<open>("delete_imgs_with_no_annotations", DeleteImgsWithNoAnnotations)\<close> is commented
  out in the source and is therefore not an element of the tuple.
\<close>

definition ChestXray14Pipeline_steps :: "(string \<times> step) list" where
  "ChestXray14Pipeline_steps =
     [(''create_file_tree'', CreateFileTree),
      (''get_file_paths'', GetFilePaths),
      (''store_source_paths'', StoreSourcePaths),
      (''add_new_ids'', AddUmieIds),
      (''add_labels'', AddLabels),
      (''delete_temp_files'', DeleteTempFiles),
      (''validate_data'', ValidateData)]"

text \<open>\<^verbatim>\<open>BrainWithIntracranialHemorrhagePipeline.steps\<close>.\<close>

definition BrainWithIntracranialHemorrhagePipeline_steps :: "(string \<times> step) list" where
  "BrainWithIntracranialHemorrhagePipeline_steps =
     [(''get_file_paths'', GetFilePaths),
      (''create_file_tree'', CreateFileTree),
      (''convert_jpg2png'', ConvertJpg2Png),
      (''copy_masks'', CopyMasks),
      (''masks_to_binary_colors'', MasksToBinaryColors),
      (''recolor_masks'', RecolorMasks),
      (''add_new_ids'', AddUmieIds),
      (''add_labels'', AddLabels),
      (''create_blank_masks'', CreateBlankMasks),
      (''delete_temp_files'', DeleteTempFiles),
      (''delete_temp_png'', DeleteTempPng),
      (''validate_data'', ValidateData)]"

text \<open>
  The position (counted from 0) of the first entry of a step sequence whose class is
  \<open>s\<close>, or \<open>None\<close> when the sequence has no such entry.
\<close>

fun step_position :: "step \<Rightarrow> (string \<times> step) list \<Rightarrow> nat option" where
  "step_position s [] = None"
| "step_position s ((name, c) # rest) =
     (if c = s then Some 0
      else (case step_position s rest of None \<Rightarrow> None | Some i \<Rightarrow> Some (Suc i)))"

section \<open>Selectors\<close>

text \<open>
  Python's \<^verbatim>\<open>needle in haystack\<close> on strings: \<open>needle\<close> occurs as a contiguous
  substring. \<open>starts_with\<close> tests one position, \<open>str_contains\<close> tries every
  position from the left.
\<close>

fun starts_with :: "string \<Rightarrow> string \<Rightarrow> bool" where
  "starts_with [] s = True"
| "starts_with (c # cs) [] = False"
| "starts_with (c # cs) (d # ds) = (c = d \<and> starts_with cs ds)"

fun str_contains :: "string \<Rightarrow> string \<Rightarrow> bool" where
  "str_contains needle [] = (needle = [])"
| "str_contains needle (d # ds) = (starts_with needle (d # ds) \<or> str_contains needle ds)"

text \<open>ChestX-ray14: both selectors \<^verbatim>\<open>return True\<close>.\<close>

definition chest_xray14_is_image_file :: "string \<Rightarrow> bool" where
  "chest_xray14_is_image_file path = True"

definition chest_xray14_is_mask_file :: "string \<Rightarrow> bool" where
  "chest_xray14_is_mask_file path = True"

text \<open>
  Brain with intracranial hemorrhage: \<^verbatim>\<open>return "." in path\<close> and
  \<^verbatim>\<open>return "_HGE_Seg" in path\<close>.
\<close>

definition brain_is_image_file :: "string \<Rightarrow> bool" where
  "brain_is_image_file path = str_contains ''.'' path"

definition brain_is_mask_file :: "string \<Rightarrow> bool" where
  "brain_is_mask_file path = str_contains ''_HGE_Seg'' path"

section \<open>Errors, paths and string splitting\<close>

text \<open>
  The exceptions the extractors can raise: a dictionary lookup with a missing key
  (\<open>KeyError\<close>, carrying the key), a list index out of range (\<open>IndexError\<close>), and
  the membership test on \<^verbatim>\<open>None\<close> (\<open>TypeError\<close>). A function that can raise
  returns \<open>py_error + 'a\<close>, with \<open>Inl\<close> for the exception.
\<close>

datatype py_error = KeyError string | IndexError | TypeError

text \<open>
  \<^verbatim>\<open>d[key]\<close> on a dictionary.
\<close>

definition dict_get :: "(string \<rightharpoonup> 'v) \<Rightarrow> string \<Rightarrow> py_error + 'v" where
  "dict_get d key = (case d key of None \<Rightarrow> Inl (KeyError key) | Some v \<Rightarrow> Inr v)"

text \<open>
  \<^verbatim>\<open>xs[i]\<close> on a list: a negative index counts from the end, an index out of range
  raises.
\<close>

definition list_get :: "'a list \<Rightarrow> int \<Rightarrow> py_error + 'a" where
  "list_get xs i =
     (if 0 \<le> i \<and> i < int (length xs) then Inr (xs ! nat i)
      else if i < 0 \<and> - i \<le> int (length xs) then Inr (xs ! nat (int (length xs) + i))
      else Inl IndexError)"

text \<open>
  \<^verbatim>\<open>os.path.basename\<close> of \<^verbatim>\<open>posixpath\<close>: the text after the last
  \<^verbatim>\<open>/\<close> (the whole path when it has none). \<open>dirprefix\<close> is the other part, up
  to and including the last \<^verbatim>\<open>/\<close>, so that a path is \<open>dirprefix\<close> followed by
  \<open>basename\<close>.
\<close>

definition basename :: "string \<Rightarrow> string" where
  "basename path = rev (takeWhile (\<lambda>c. c \<noteq> CHR ''/'') (rev path))"

definition dirprefix :: "string \<Rightarrow> string" where
  "dirprefix path = rev (dropWhile (\<lambda>c. c \<noteq> CHR ''/'') (rev path))"

text \<open>
  \<^verbatim>\<open>s.split(sep)\<close> for a separator of one character: the pieces between the
  occurrences of \<open>sep\<close>, empty pieces included; a string without \<open>sep\<close> is its
  only piece.
\<close>

fun split_sep :: "char \<Rightarrow> string \<Rightarrow> string list" where
  "split_sep sep [] = [[]]"
| "split_sep sep (c # cs) =
     (if c = sep then [] # split_sep sep cs
      else (case split_sep sep cs of [] \<Rightarrow> [[c]] | w # ws \<Rightarrow> (c # w) # ws))"

section \<open>Helpers of the base extractor classes\<close>

text \<open>
  Modelled from the spec: \<^verbatim>\<open>BasePathExtractor._extract_parent_dir\<close> of
  \<^verbatim>\<open>base.extractors\<close>, which is not among the sources. Both calls pass
  \<^verbatim>\<open>include_path=False\<close> and ask for a folder name: the study-id extractor with
  \<^verbatim>\<open>parent_dir_level=-2\<close> ("name of parent folder of images in source directory"),
  the phase extractor with \<^verbatim>\<open>parent_dir_level=1\<close> ("name of folder 1 level above
  image in source directory"). A negative level is read as a Python index into the
  components of the path (\<open>-1\<close> the file, \<open>-2\<close> its folder), a positive level as the
  number of folders to go up from the image (\<open>1\<close> its folder); a path with too few
  components raises.
\<close>

definition extract_parent_dir :: "string \<Rightarrow> int \<Rightarrow> py_error + string" where
  "extract_parent_dir img_path parent_dir_level =
     list_get (split_sep CHR ''/'' img_path)
       (if parent_dir_level < 0 then parent_dir_level else - (parent_dir_level + 1))"

text \<open>
  Modelled from the spec: \<^verbatim>\<open>BasePhaseIdExtractor._get_phase_id_from_dict\<close> of
  \<^verbatim>\<open>base.extractors\<close>, which is not among the sources. Section 4.2: the phase id is
  "resolved via a name\<rightarrow>id lookup table; fails with a KeyError-equivalent when the source
  phase name is not in the table".
\<close>

definition get_phase_id_from_dict :: "(string \<rightharpoonup> string) \<Rightarrow> string \<Rightarrow> py_error + string" where
  "get_phase_id_from_dict phases phase_name = dict_get phases phase_name"

text \<open>
  Modelled from the spec: \<^verbatim>\<open>_extract_filename\<close> and \<^verbatim>\<open>_extract_by_separator\<close>
  of \<^verbatim>\<open>base.extractors\<close>, which are not among the sources. Section 4.2 derives ids
  from a "filename segment" at "a fixed separator": the filename is the basename of the
  path, and \<^verbatim>\<open>_extract_by_separator(img_path, sep, i)\<close> is piece \<open>i\<close> of the
  filename split at \<open>sep\<close>.
\<close>

definition extract_filename :: "string \<Rightarrow> string" where
  "extract_filename img_path = basename img_path"

text \<open>
  Modelled from the spec: \<^verbatim>\<open>_extract_by_separator\<close> of \<^verbatim>\<open>base.extractors\<close>
  (not among the sources), as described above; a filename with too few pieces raises
  \<open>IndexError\<close>, as \<^verbatim>\<open>split(sep)[i]\<close> does.
\<close>

definition extract_by_separator :: "string \<Rightarrow> char \<Rightarrow> int \<Rightarrow> py_error + string" where
  "extract_by_separator img_path sep i = list_get (split_sep sep (extract_filename img_path)) i"

section \<open>ChestX-ray14 extractors\<close>

text \<open>\<^verbatim>\<open>return self._extract_by_separator(img_path, "_", 1)\<close>\<close>

definition chest_xray14_ImgIdExtractor_extract :: "string \<Rightarrow> py_error + string" where
  "chest_xray14_ImgIdExtractor_extract img_path = extract_by_separator img_path CHR ''_'' 1"

text \<open>\<^verbatim>\<open>return self._extract_filename(img_path).split("_")[0]\<close>\<close>

definition chest_xray14_StudyIdExtractor_extract :: "string \<Rightarrow> py_error + string" where
  "chest_xray14_StudyIdExtractor_extract img_path =
     list_get (split_sep CHR ''_'' (extract_filename img_path)) 0"

text \<open>
  The label table \<^verbatim>\<open>self.source_labels\<close> is the data frame read from the label CSV,
  restricted to the columns "Image Index" and "Finding Labels": a list of rows, each a
  pair of the two cells, in file order.

  The loop \<^verbatim>\<open>for label in labels: radlex_labels.extend(self.labels[label])\<close>:
  \<open>extend_labels\<close> carries the list built so far and stops at the first label that is
  not a key of the dictionary.
\<close>

fun extend_labels :: "(string \<rightharpoonup> 'c list) \<Rightarrow> string list \<Rightarrow> 'c list \<Rightarrow> py_error + 'c list" where
  "extend_labels labels [] radlex_labels = Inr radlex_labels"
| "extend_labels labels (label # rest) radlex_labels =
     (case dict_get labels label of
        Inl e \<Rightarrow> Inl e
      | Inr codes \<Rightarrow> extend_labels labels rest (radlex_labels @ codes))"

text \<open>
  \<^verbatim>\<open>LabelExtractor._extract\<close> of \<^verbatim>\<open>chest_xray14.py\<close>. \<open>img_row\<close> holds the
  rows whose "Image Index" equals the basename; \<^verbatim>\<open>.values[0]\<close> reads the first of
  them.
\<close>

definition chest_xray14_LabelExtractor_extract ::
  "(string \<rightharpoonup> 'c list) \<Rightarrow> (string \<times> string) list \<Rightarrow> string \<Rightarrow> py_error + ('c list \<times> string list)" where
  "chest_xray14_LabelExtractor_extract labels source_labels img_path =
     (let img_name = basename img_path;
          img_row = filter (\<lambda>row. fst row = img_name) source_labels
      in case img_row of
           [] \<Rightarrow> Inr ([], [])
         | row # _ \<Rightarrow>
             (let raw = split_sep CHR ''|'' (snd row)
              in case extend_labels labels raw [] of
                   Inl e \<Rightarrow> Inl e
                 | Inr radlex_labels \<Rightarrow> Inr (radlex_labels, raw)))"

section \<open>Brain-with-intracranial-hemorrhage extractors\<close>

text \<open>\<^verbatim>\<open>return os.path.basename(img_path)\<close>\<close>

definition brain_ImgIdExtractor_extract :: "string \<Rightarrow> string" where
  "brain_ImgIdExtractor_extract img_path = basename img_path"

text \<open>
  \<^verbatim>\<open>return self._extract_parent_dir(img_path, parent_dir_level=-2, include_path=False)\<close>
\<close>

definition brain_StudyIdExtractor_extract :: "string \<Rightarrow> py_error + string" where
  "brain_StudyIdExtractor_extract img_path = extract_parent_dir img_path (- 2)"

text \<open>
  \<^verbatim>\<open>PhaseExtractor._extract\<close>: the phase name is taken from the path, then looked up
  in the phase table \<^verbatim>\<open>self.phases\<close>; an exception of either call is the result.
\<close>

definition brain_PhaseExtractor_extract :: "(string \<rightharpoonup> string) \<Rightarrow> string \<Rightarrow> py_error + string" where
  "brain_PhaseExtractor_extract phases img_path =
     (case extract_parent_dir img_path 1 of
        Inl e \<Rightarrow> Inl e
      | Inr phase_name \<Rightarrow> get_phase_id_from_dict phases phase_name)"

text \<open>
  What \<^verbatim>\<open>LabelExtractor._extract\<close> of the brain dataset reads from the disk:
  \<open>path_exists\<close> is \<^verbatim>\<open>os.path.exists\<close>, and \<open>imread\<close> is \<^verbatim>\<open>cv2.imread\<close>,
  which returns \<^verbatim>\<open>None\<close> for a file it cannot decode.
\<close>

record 'img disk =
  path_exists :: "string \<Rightarrow> bool"
  imread :: "string \<Rightarrow> 'img option"

text \<open>
  \<^verbatim>\<open>LabelExtractor._extract\<close> of
  \<^verbatim>\<open>brain_with_intracranial_hemorrhage.py\<close>. The condition
  \<^verbatim>\<open>os.path.exists(mask_path) and self.target_colors in cv2.imread(mask_path)\<close>
  evaluates from the left and does not read the mask when the path does not exist. The
  membership test of the array library is the parameter \<open>array_contains\<close>; on
  \<^verbatim>\<open>None\<close> the test raises \<open>TypeError\<close>. \<open>target_colors\<close> is the list built by
  the constructor from the values of the mask dictionary.
\<close>

definition brain_LabelExtractor_extract ::
  "(string \<rightharpoonup> 'c list) \<Rightarrow> 'col list \<Rightarrow> ('col list \<Rightarrow> 'img \<Rightarrow> bool) \<Rightarrow> 'img disk
     \<Rightarrow> string \<Rightarrow> string \<Rightarrow> py_error + ('c list \<times> string list)" where
  "brain_LabelExtractor_extract labels target_colors array_contains d img_path mask_path =
     (if path_exists d mask_path then
        (case imread d mask_path of
           None \<Rightarrow> Inl TypeError
         | Some mask_array \<Rightarrow>
             if array_contains target_colors mask_array
             then (case dict_get labels ''brain_hemorrhage'' of
                     Inl e \<Rightarrow> Inl e | Inr codes \<Rightarrow> Inr (codes, [''brain_hemorrhage'']))
             else (case dict_get labels ''normal'' of
                     Inl e \<Rightarrow> Inl e | Inr codes \<Rightarrow> Inr (codes, [''normal''])))
      else (case dict_get labels ''normal'' of
              Inl e \<Rightarrow> Inl e | Inr codes \<Rightarrow> Inr (codes, [''normal''])))"

section \<open>Identifier assignment\<close>






section \<open>Auxiliary facts\<close>

lemma starts_with_iff: "starts_with needle s \<longleftrightarrow> (\<exists>b. s = needle @ b)"
  by (induction needle s rule: starts_with.induct) auto

lemma str_contains_iff: "str_contains needle s \<longleftrightarrow> (\<exists>a b. s = a @ needle @ b)"
proof (induction s)
  case Nil
  show ?case by auto
next
  case (Cons d ds)
  show ?case
  proof
    assume "str_contains needle (d # ds)"
    then consider "starts_with needle (d # ds)" | "str_contains needle ds" by auto
    then show "\<exists>a b. d # ds = a @ needle @ b"
    proof cases
      case 1
      then obtain b where "d # ds = needle @ b" by (auto simp: starts_with_iff)
      then have "d # ds = [] @ needle @ b" by simp
      then show ?thesis by blast
    next
      case 2
      then obtain a b where "ds = a @ needle @ b" using Cons.IH by auto
      then have "d # ds = (d # a) @ needle @ b" by simp
      then show ?thesis by blast
    qed
  next
    assume "\<exists>a b. d # ds = a @ needle @ b"
    then obtain a b where ab: "d # ds = a @ needle @ b" by blast
    show "str_contains needle (d # ds)"
    proof (cases a)
      case Nil
      with ab have "starts_with needle (d # ds)" by (auto simp: starts_with_iff)
      then show ?thesis by simp
    next
      case (Cons x a')
      with ab have "ds = a' @ needle @ b" by simp
      then have "str_contains needle ds" using Cons.IH by blast
      then show ?thesis by simp
    qed
  qed
qed

lemma str_contains_char: "str_contains [c] s \<longleftrightarrow> c \<in> set s"
  by (simp add: str_contains_iff in_set_conv_decomp)

lemma dirprefix_basename: "dirprefix path @ basename path = path"
proof -
  have "dirprefix path @ basename path =
        rev (takeWhile (\<lambda>c. c \<noteq> CHR ''/'') (rev path) @ dropWhile (\<lambda>c. c \<noteq> CHR ''/'') (rev path))"
    unfolding dirprefix_def basename_def by (rule rev_append [symmetric])
  also have "\<dots> = rev (rev path)" by (simp only: takeWhile_dropWhile_id)
  finally show ?thesis by simp
qed

lemma extend_labels_missing:
  "label \<in> set ls \<Longrightarrow> labels label = None \<Longrightarrow>
   \<exists>k. extend_labels labels ls acc = Inl (KeyError k) \<and> k \<in> set ls \<and> labels k = None"
proof (induction ls arbitrary: acc)
  case Nil
  then show ?case by simp
next
  case (Cons l ls)
  show ?case
  proof (cases "labels l")
    case None
    then show ?thesis by (auto simp: dict_get_def)
  next
    case (Some codes)
    with Cons.prems have "label \<in> set ls" by auto
    from Cons.IH[OF this Cons.prems(2), of "acc @ codes"] Some
    show ?thesis by (auto simp: dict_get_def)
  qed
qed

lemma find_filter: "find P xs = Some r \<Longrightarrow> \<exists>rest. filter P xs = r # rest"
  by (induction xs) (auto split: if_splits)

lemma split_sep_nonempty: "split_sep sep s \<noteq> []"
  by (induction s) (auto split: list.splits)

lemma split_sep_single: "split_sep sep s = [b] \<Longrightarrow> s = b"
  using split_sep_nonempty [of sep]
  by (induction s arbitrary: b) (auto split: if_splits list.splits)

lemma split_sep_pair: "split_sep sep s = [a, b] \<Longrightarrow> s = a @ sep # b"
proof (induction s arbitrary: a)
  case Nil
  then show ?case by simp
next
  case (Cons x xs)
  show ?case
  proof (cases "x = sep")
    case True
    with Cons.prems have "a = []" "split_sep sep xs = [b]" by auto
    then show ?thesis using True split_sep_single by auto
  next
    case False
    with Cons.prems obtain w where "a = x # w" "split_sep sep xs = [w, b]"
      by (auto split: list.splits)
    then show ?thesis using Cons.IH by auto
  qed
qed

lemma list_get_pair: "list_get [a, b] 0 = Inr a" "list_get [a, b] 1 = Inr b"
  by (simp_all add: list_get_def)















section \<open>Properties of the pipelines and extractors\<close>

text \<open>
  Against claim C1 as stated:
  in \<^verbatim>\<open>BrainWithIntracranialHemorrhagePipeline.steps\<close> both the recolor step
  (\<^verbatim>\<open>RecolorMasks\<close>) and the binarize step (\<^verbatim>\<open>MasksToBinaryColors\<close>) occur, and
  the recolor step is not at an earlier position than the binarize step.
\<close>

theorem C1_counterexample:
  "step_position RecolorMasks BrainWithIntracranialHemorrhagePipeline_steps \<noteq> None \<and>
   step_position MasksToBinaryColors BrainWithIntracranialHemorrhagePipeline_steps \<noteq> None \<and>
   \<not> the (step_position RecolorMasks BrainWithIntracranialHemorrhagePipeline_steps)
       < the (step_position MasksToBinaryColors BrainWithIntracranialHemorrhagePipeline_steps)"
  by (simp add: BrainWithIntracranialHemorrhagePipeline_steps_def)

text \<open>
  Claim C1, as the code has it: in \<^verbatim>\<open>BrainWithIntracranialHemorrhagePipeline.steps\<close>
  the binarize step \<^verbatim>\<open>masks_to_binary_colors\<close> is at position 4 and the recolor step
  \<^verbatim>\<open>recolor_masks\<close> directly after it at position 5 (binarize first, then recolor);
  \<^verbatim>\<open>ChestXray14Pipeline.steps\<close> contains neither of the two steps.
\<close>

theorem C1_binarize_then_recolor:
  "step_position MasksToBinaryColors BrainWithIntracranialHemorrhagePipeline_steps = Some 4 \<and>
   step_position RecolorMasks BrainWithIntracranialHemorrhagePipeline_steps = Some 5 \<and>
   step_position MasksToBinaryColors ChestXray14Pipeline_steps = None \<and>
   step_position RecolorMasks ChestXray14Pipeline_steps = None"
  by (simp add: BrainWithIntracranialHemorrhagePipeline_steps_def ChestXray14Pipeline_steps_def)

text \<open>
  Claim C2: with a label dictionary that has the keys \<^verbatim>\<open>brain_hemorrhage\<close> and
  \<^verbatim>\<open>normal\<close>, the brain label extractor returns the hemorrhage codes with the raw
  labels \<^verbatim>\<open>["brain_hemorrhage"]\<close> when the mask path exists, the mask is read and the
  target colours are found in it, and the normal codes with the raw labels
  \<^verbatim>\<open>["normal"]\<close> when the mask path does not exist.
\<close>

theorem C2_label_by_mask:
  assumes "labels ''brain_hemorrhage'' = Some hemorrhage_codes"
    and "labels ''normal'' = Some normal_codes"
  shows "(path_exists d mask_path \<and> imread d mask_path = Some mask_array
            \<and> array_contains target_colors mask_array \<longrightarrow>
          brain_LabelExtractor_extract labels target_colors array_contains d img_path mask_path
            = Inr (hemorrhage_codes, [''brain_hemorrhage''])) \<and>
         (\<not> path_exists d mask_path \<longrightarrow>
          brain_LabelExtractor_extract labels target_colors array_contains d img_path mask_path
            = Inr (normal_codes, [''normal'']))"
  using assms by (simp add: brain_LabelExtractor_extract_def dict_get_def)

theorem C2_label_by_mask_witness:
  "brain_LabelExtractor_extract [''brain_hemorrhage'' \<mapsto> [1::nat], ''normal'' \<mapsto> [0]] [255::nat]
     (\<lambda>colors a. list_ex (\<lambda>row. list_ex (\<lambda>v. v \<in> set colors) row) a)
     \<lparr>path_exists = (\<lambda>p. p = ''049/brain/14_HGE_Seg.jpg''),
      imread = (\<lambda>p. if p = ''049/brain/14_HGE_Seg.jpg'' then Some [[0, 255], [0, 0]] else None)\<rparr>
     ''049/brain/14.jpg'' ''049/brain/14_HGE_Seg.jpg'' = Inr ([1], [''brain_hemorrhage'']) \<and>
   brain_LabelExtractor_extract [''brain_hemorrhage'' \<mapsto> [1::nat], ''normal'' \<mapsto> [0]] [255::nat]
     (\<lambda>colors a. list_ex (\<lambda>row. list_ex (\<lambda>v. v \<in> set colors) row) a)
     \<lparr>path_exists = (\<lambda>p. p = ''049/brain/14_HGE_Seg.jpg''),
      imread = (\<lambda>p. if p = ''049/brain/14_HGE_Seg.jpg'' then Some [[0, 255], [0, 0]] else None)\<rparr>
     ''049/brain/15.jpg'' ''049/brain/15_HGE_Seg.jpg'' = Inr ([0], [''normal''])"
proof -
  let ?labels = "[''brain_hemorrhage'' \<mapsto> [1::nat], ''normal'' \<mapsto> [0]]"
  let ?contains = "\<lambda>colors a. list_ex (\<lambda>row. list_ex (\<lambda>v. v \<in> set colors) row) a"
  let ?d = "\<lparr>path_exists = (\<lambda>p. p = ''049/brain/14_HGE_Seg.jpg''),
      imread = (\<lambda>p. if p = ''049/brain/14_HGE_Seg.jpg'' then Some [[0, 255::nat], [0, 0]] else None)\<rparr>"
  have h1: "?labels ''brain_hemorrhage'' = Some [1]" by simp
  have h2: "?labels ''normal'' = Some [0]" by simp
  have a: "path_exists ?d ''049/brain/14_HGE_Seg.jpg''" by simp
  have b: "imread ?d ''049/brain/14_HGE_Seg.jpg'' = Some [[0, 255], [0, 0]]" by simp
  have c: "?contains [255::nat] [[0, 255], [0, 0]]" by simp
  have e: "\<not> path_exists ?d ''049/brain/15_HGE_Seg.jpg''" by simp
  from C2_label_by_mask [OF h1 h2, where d = ?d and mask_path = "''049/brain/14_HGE_Seg.jpg''"
      and mask_array = "[[0, 255], [0, 0]]" and array_contains = ?contains
      and target_colors = "[255]" and img_path = "''049/brain/14.jpg''"] a b c
  have r1: "brain_LabelExtractor_extract ?labels [255] ?contains ?d
      ''049/brain/14.jpg'' ''049/brain/14_HGE_Seg.jpg'' = Inr ([1], [''brain_hemorrhage''])"
    by blast
  from C2_label_by_mask [OF h1 h2, where d = ?d and mask_path = "''049/brain/15_HGE_Seg.jpg''"
      and array_contains = ?contains and target_colors = "[255]"
      and img_path = "''049/brain/15.jpg''"] e
  have r2: "brain_LabelExtractor_extract ?labels [255] ?contains ?d
      ''049/brain/15.jpg'' ''049/brain/15_HGE_Seg.jpg'' = Inr ([0], [''normal''])"
    by blast
  from r1 r2 show ?thesis by (rule conjI)
qed

text \<open>
  Claim C3: when the basename of the image path is not in the "Image Index" column of
  the label table, the ChestX-ray14 label extractor returns the pair of two empty lists,
  as a normal result and not as an exception.
\<close>

theorem C3_unlisted_image_empty_labels:
  assumes "basename img_path \<notin> fst ` set source_labels"
  shows "chest_xray14_LabelExtractor_extract labels source_labels img_path = Inr ([], [])"
proof -
  have "filter (\<lambda>row. fst row = basename img_path) source_labels = []"
    using assms by (force simp: filter_empty_conv)
  then show ?thesis by (simp add: chest_xray14_LabelExtractor_extract_def)
qed

theorem C3_unlisted_image_witness:
  "basename ''images/00000099_000.png'' \<notin>
     fst ` set [(''00000001_000.png'', ''Cardiomegaly''), (''00000002_000.png'', ''No Finding'')] \<and>
   chest_xray14_LabelExtractor_extract [''Cardiomegaly'' \<mapsto> [1::nat], ''No Finding'' \<mapsto> [2]]
     [(''00000001_000.png'', ''Cardiomegaly''), (''00000002_000.png'', ''No Finding'')]
     ''images/00000099_000.png'' = Inr ([], [])"
proof -
  have h: "basename ''images/00000099_000.png'' \<notin>
     fst ` set [(''00000001_000.png'', ''Cardiomegaly''), (''00000002_000.png'', ''No Finding'')]"
    by (simp add: basename_def)
  from h C3_unlisted_image_empty_labels [OF h] show ?thesis by simp
qed

text \<open>
  Claim C4: when the name of the folder one level above the image is not in the phase
  lookup table, the phase extractor raises \<open>KeyError\<close> for that name and returns no
  phase id.
\<close>

theorem C4_unknown_phase_KeyError:
  assumes "extract_parent_dir img_path 1 = Inr phase_name"
    and "phases phase_name = None"
  shows "brain_PhaseExtractor_extract phases img_path = Inl (KeyError phase_name)"
  using assms by (simp add: brain_PhaseExtractor_extract_def get_phase_id_from_dict_def dict_get_def)

theorem C4_unknown_phase_witness:
  "extract_parent_dir ''Patients_CT/049/bone/14.jpg'' 1 = Inr ''bone'' \<and>
   [''brain'' \<mapsto> ''0''] ''bone'' = None \<and>
   brain_PhaseExtractor_extract [''brain'' \<mapsto> ''0''] ''Patients_CT/049/bone/14.jpg''
     = Inl (KeyError ''bone'')"
proof -
  have h1: "extract_parent_dir ''Patients_CT/049/bone/14.jpg'' 1 = Inr ''bone''"
    by (simp add: extract_parent_dir_def list_get_def)
  have h2: "[''brain'' \<mapsto> ''0''] ''bone'' = None" by simp
  from h1 h2 C4_unknown_phase_KeyError
    [of "''Patients_CT/049/bone/14.jpg''" "''bone''" "[''brain'' \<mapsto> ''0'']"]
  show ?thesis by simp
qed

text \<open>
  Against claim C5 as stated:
  distinct image paths of one study with the same image id: for the brain dataset two
  files of the same name in two folders both called \<^verbatim>\<open>049\<close>; for ChestX-ray14 two
  files of the same name in different folders, and two files of one folder whose names
  differ only after the second underscore.
\<close>

theorem C5_counterexample:
  "''Patients_CT/siteA/049/14.jpg'' \<noteq> ''Patients_CT/siteB/049/14.jpg'' \<and>
   brain_StudyIdExtractor_extract ''Patients_CT/siteA/049/14.jpg'' = Inr ''049'' \<and>
   brain_StudyIdExtractor_extract ''Patients_CT/siteB/049/14.jpg'' = Inr ''049'' \<and>
   brain_ImgIdExtractor_extract ''Patients_CT/siteA/049/14.jpg''
     = brain_ImgIdExtractor_extract ''Patients_CT/siteB/049/14.jpg'' \<and>
   ''images_001/00000001_000.png'' \<noteq> ''images_002/00000001_000.png'' \<and>
   chest_xray14_StudyIdExtractor_extract ''images_001/00000001_000.png'' = Inr ''00000001'' \<and>
   chest_xray14_StudyIdExtractor_extract ''images_002/00000001_000.png'' = Inr ''00000001'' \<and>
   chest_xray14_ImgIdExtractor_extract ''images_001/00000001_000.png'' = Inr ''000.png'' \<and>
   chest_xray14_ImgIdExtractor_extract ''images_002/00000001_000.png'' = Inr ''000.png'' \<and>
   ''images/00000001_000_a.png'' \<noteq> ''images/00000001_000_b.png'' \<and>
   chest_xray14_StudyIdExtractor_extract ''images/00000001_000_a.png'' = Inr ''00000001'' \<and>
   chest_xray14_StudyIdExtractor_extract ''images/00000001_000_b.png'' = Inr ''00000001'' \<and>
   chest_xray14_ImgIdExtractor_extract ''images/00000001_000_a.png'' = Inr ''000'' \<and>
   chest_xray14_ImgIdExtractor_extract ''images/00000001_000_b.png'' = Inr ''000''"
  by (simp add: brain_StudyIdExtractor_extract_def brain_ImgIdExtractor_extract_def
      chest_xray14_StudyIdExtractor_extract_def chest_xray14_ImgIdExtractor_extract_def
      extract_parent_dir_def extract_by_separator_def extract_filename_def basename_def
      list_get_def)

text \<open>
  Claim C5, as the code has it: for two distinct image paths in the same directory (the
  same text up to and including the last \<^verbatim>\<open>/\<close>) the brain image-id extractor
  yields distinct ids; the ChestX-ray14 image-id extractor yields distinct ids for two such
  paths with the same study id when both filenames contain exactly one underscore.
\<close>

theorem C5_img_id_injective_in_directory:
  assumes "dirprefix p = dirprefix q" and "p \<noteq> q"
  shows "brain_ImgIdExtractor_extract p \<noteq> brain_ImgIdExtractor_extract q \<and>
         (length (split_sep CHR ''_'' (extract_filename p)) = 2 \<and>
          length (split_sep CHR ''_'' (extract_filename q)) = 2 \<and>
          chest_xray14_StudyIdExtractor_extract p = chest_xray14_StudyIdExtractor_extract q \<longrightarrow>
          chest_xray14_ImgIdExtractor_extract p \<noteq> chest_xray14_ImgIdExtractor_extract q)"
proof -
  have names: "basename p \<noteq> basename q"
  proof
    assume "basename p = basename q"
    with assms(1) have "dirprefix p @ basename p = dirprefix q @ basename q" by simp
    with assms(2) show False by (simp add: dirprefix_basename)
  qed
  have chest: "chest_xray14_ImgIdExtractor_extract p \<noteq> chest_xray14_ImgIdExtractor_extract q"
    if lp: "length (split_sep CHR ''_'' (extract_filename p)) = 2"
      and lq: "length (split_sep CHR ''_'' (extract_filename q)) = 2"
      and st: "chest_xray14_StudyIdExtractor_extract p = chest_xray14_StudyIdExtractor_extract q"
  proof
    assume im: "chest_xray14_ImgIdExtractor_extract p = chest_xray14_ImgIdExtractor_extract q"
    from lp obtain a b where sp: "split_sep CHR ''_'' (extract_filename p) = [a, b]"
      by (auto simp: length_Suc_conv numeral_2_eq_2)
    from lq obtain a' b' where sq: "split_sep CHR ''_'' (extract_filename q) = [a', b']"
      by (auto simp: length_Suc_conv numeral_2_eq_2)
    from st sp sq have "a = a'"
      by (simp add: chest_xray14_StudyIdExtractor_extract_def list_get_pair)
    moreover from im sp sq have "b = b'"
      by (simp add: chest_xray14_ImgIdExtractor_extract_def extract_by_separator_def list_get_pair)
    ultimately have "extract_filename p = extract_filename q"
      using split_sep_pair [OF sp] split_sep_pair [OF sq] by simp
    with names show False by (simp add: extract_filename_def)
  qed
  from names chest show ?thesis by (simp add: brain_ImgIdExtractor_extract_def)
qed

theorem C5_img_id_injective_witness:
  "dirprefix ''images/00000001_000.png'' = dirprefix ''images/00000001_001.png'' \<and>
   ''images/00000001_000.png'' \<noteq> ''images/00000001_001.png'' \<and>
   length (split_sep CHR ''_'' (extract_filename ''images/00000001_000.png'')) = 2 \<and>
   length (split_sep CHR ''_'' (extract_filename ''images/00000001_001.png'')) = 2 \<and>
   chest_xray14_StudyIdExtractor_extract ''images/00000001_000.png''
     = chest_xray14_StudyIdExtractor_extract ''images/00000001_001.png'' \<and>
   brain_ImgIdExtractor_extract ''images/00000001_000.png''
     \<noteq> brain_ImgIdExtractor_extract ''images/00000001_001.png'' \<and>
   chest_xray14_ImgIdExtractor_extract ''images/00000001_000.png''
     \<noteq> chest_xray14_ImgIdExtractor_extract ''images/00000001_001.png''"
proof -
  have h1: "dirprefix ''images/00000001_000.png'' = dirprefix ''images/00000001_001.png''"
    by (simp add: dirprefix_def)
  have h2: "''images/00000001_000.png'' \<noteq> ''images/00000001_001.png''" by simp
  have h3: "length (split_sep CHR ''_'' (extract_filename ''images/00000001_000.png'')) = 2"
    by (simp add: extract_filename_def basename_def)
  have h4: "length (split_sep CHR ''_'' (extract_filename ''images/00000001_001.png'')) = 2"
    by (simp add: extract_filename_def basename_def)
  have h5: "chest_xray14_StudyIdExtractor_extract ''images/00000001_000.png''
     = chest_xray14_StudyIdExtractor_extract ''images/00000001_001.png''"
    by (simp add: chest_xray14_StudyIdExtractor_extract_def extract_filename_def basename_def
        list_get_def)
  from C5_img_id_injective_in_directory [OF h1 h2] h1 h2 h3 h4 h5 show ?thesis by blast
qed

text \<open>
  Against claim C6 as stated:
  a ChestX-ray14 path and a brain-dataset mask path that the image selector and the mask
  selector of their dataset both accept.
\<close>

theorem C6_counterexample:
  "chest_xray14_is_image_file ''images/00000001_000.png'' \<and>
   chest_xray14_is_mask_file ''images/00000001_000.png'' \<and>
   brain_is_image_file ''Patients_CT/049/brain/14_HGE_Seg.jpg'' \<and>
   brain_is_mask_file ''Patients_CT/049/brain/14_HGE_Seg.jpg''"
  by (simp add: chest_xray14_is_image_file_def chest_xray14_is_mask_file_def
      brain_is_image_file_def brain_is_mask_file_def)

text \<open>
  Claim C6, as the code has it: the selectors of a dataset are not disjoint. For
  ChestX-ray14 both selectors accept every path. For the brain dataset a path is accepted
  by both selectors exactly when it contains a \<^verbatim>\<open>.\<close> and contains
  \<^verbatim>\<open>_HGE_Seg\<close> as a substring.
\<close>

theorem C6_selector_overlap:
  "(\<forall>path. chest_xray14_is_image_file path \<and> chest_xray14_is_mask_file path) \<and>
   (\<forall>path. (brain_is_image_file path \<and> brain_is_mask_file path) =
      (CHR ''.'' \<in> set path \<and> (\<exists>a b. path = a @ ''_HGE_Seg'' @ b)))"
  unfolding chest_xray14_is_image_file_def chest_xray14_is_mask_file_def
    brain_is_image_file_def brain_is_mask_file_def str_contains_char
  by (simp add: str_contains_iff)




text \<open>
  Claim C8: neither of the two pipelines has both the blank-mask-synthesis step
  \<^verbatim>\<open>CreateBlankMasks\<close> and the drop-unmasked-images step
  \<^verbatim>\<open>DeleteImgsWithNoAnnotations\<close> in its step sequence.
\<close>

theorem C8_one_missing_mask_policy:
  "\<not> (CreateBlankMasks \<in> snd ` set BrainWithIntracranialHemorrhagePipeline_steps \<and>
      DeleteImgsWithNoAnnotations \<in> snd ` set BrainWithIntracranialHemorrhagePipeline_steps) \<and>
   \<not> (CreateBlankMasks \<in> snd ` set ChestXray14Pipeline_steps \<and>
      DeleteImgsWithNoAnnotations \<in> snd ` set ChestXray14Pipeline_steps)"
  by (simp add: BrainWithIntracranialHemorrhagePipeline_steps_def ChestXray14Pipeline_steps_def)

text \<open>
  Claim C10: when the basename of the image path is in the label table and the
  "Finding Labels" cell of its row (the first row with that "Image Index", the one the
  extractor reads) contains a finding name that is not a key of the label dictionary, the
  ChestX-ray14 label extractor raises \<open>KeyError\<close> for a finding name of that cell that is
  missing from the dictionary; it returns no result.
\<close>

theorem C10_unknown_finding_KeyError:
  assumes "find (\<lambda>row. fst row = basename img_path) source_labels = Some row"
    and "label \<in> set (split_sep CHR ''|'' (snd row))"
    and "labels label = None"
  shows "\<exists>k. chest_xray14_LabelExtractor_extract labels source_labels img_path = Inl (KeyError k)
           \<and> k \<in> set (split_sep CHR ''|'' (snd row)) \<and> labels k = None"
proof -
  from assms(1) obtain rest where
    f: "filter (\<lambda>row. fst row = basename img_path) source_labels = row # rest"
    using find_filter by fastforce
  from extend_labels_missing [of label "split_sep CHR ''|'' (snd row)" labels "[]"] assms(2,3)
  obtain k where
    "extend_labels labels (split_sep CHR ''|'' (snd row)) [] = Inl (KeyError k)"
    "k \<in> set (split_sep CHR ''|'' (snd row))" "labels k = None"
    by blast
  with f show ?thesis by (simp add: chest_xray14_LabelExtractor_extract_def)
qed

theorem C10_unknown_finding_witness:
  "\<exists>k. chest_xray14_LabelExtractor_extract [''Cardiomegaly'' \<mapsto> [1::nat], ''No Finding'' \<mapsto> [2]]
         [(''00000001_000.png'', ''Cardiomegaly|Scoliosis''), (''00000002_000.png'', ''No Finding'')]
         ''images/00000001_000.png'' = Inl (KeyError k)
       \<and> k \<in> set (split_sep CHR ''|'' ''Cardiomegaly|Scoliosis'')
       \<and> [''Cardiomegaly'' \<mapsto> [1::nat], ''No Finding'' \<mapsto> [2]] k = None"
proof -
  have h1: "find (\<lambda>row. fst row = basename ''images/00000001_000.png'')
      [(''00000001_000.png'', ''Cardiomegaly|Scoliosis''), (''00000002_000.png'', ''No Finding'')]
      = Some (''00000001_000.png'', ''Cardiomegaly|Scoliosis'')"
    by (simp add: basename_def)
  have h2: "''Scoliosis'' \<in> set (split_sep CHR ''|'' (snd (''00000001_000.png'', ''Cardiomegaly|Scoliosis'')))"
    by simp
  have h3: "[''Cardiomegaly'' \<mapsto> [1::nat], ''No Finding'' \<mapsto> [2]] ''Scoliosis'' = None"
    by simp
  from h1 h2 h3 C10_unknown_finding_KeyError
    [where img_path = "''images/00000001_000.png''"
       and source_labels = "[(''00000001_000.png'', ''Cardiomegaly|Scoliosis''),
                             (''00000002_000.png'', ''No Finding'')]"
       and row = "(''00000001_000.png'', ''Cardiomegaly|Scoliosis'')"
       and label = "''Scoliosis''"
       and labels = "[''Cardiomegaly'' \<mapsto> [1::nat], ''No Finding'' \<mapsto> [2]]"]
  show ?thesis by simp
qed

end
